theory Spec2Isabelle
  imports Main
begin

section \<open>Data model (backend/models/notificationSchema.js)\<close>

text \<open>
  Dates are epoch milliseconds. A document's \<open>_id\<close> is its position in the collection
  (collections only grow here), so ids are unique by construction. Values read from
  outside the code (the clock, the preference and user collections, the template files,
  the mail provider) are parameters of the functions that read them. Left out are the
  \<open>templateData\<close> of a job, which only travels to the provider, and the push and
  in-app blocks of the preferences, which the code modelled here never reads.
\<close>

type_synonym date = int

datatype job_status = Pending | Processing | Sent | Failed | Cancelled

text \<open>The stored strings of the \<open>priority\<close> enum; the queue query sorts on them.\<close>

datatype job_priority = Low | Medium | High

fun priority_str :: "job_priority \<Rightarrow> string" where
  "priority_str Low = ''low''"
| "priority_str Medium = ''medium''"
| "priority_str High = ''high''"

record email_job =
  recipient :: nat
  emailType :: string
  subject :: string
  htmlContent :: string
  textContent :: "string option"
  priority :: job_priority
  status :: job_status
  scheduledFor :: date
  attempts :: nat
  lastAttempt :: "date option"
  sentAt :: "date option"
  failureReason :: "string option"
  createdAt :: date

text \<open>The fields that \<open>populate('recipient', 'name email')\<close> selects.\<close>

record user_doc =
  user_name :: string
  user_email :: "string option"

datatype email_frequency = Immediate | Daily | Weekly

record email_prefs =
  email_enabled :: bool
  jobMatches :: bool
  applicationUpdates :: bool
  connectionRequests :: bool
  endorsements :: bool
  recommendations :: bool
  assessmentInvitations :: bool
  weeklyDigest :: bool
  frequency :: email_frequency

record quiet_hours =
  quiet_enabled :: bool
  startTime :: string
  endTime :: string
  timezone :: string

record notification_preferences =
  pref_email :: email_prefs
  quietHours :: quiet_hours

text \<open>The schema's defaults for a preference document.\<close>

definition default_preferences :: notification_preferences where
  "default_preferences =
     \<lparr>pref_email = \<lparr>email_enabled = True, jobMatches = True, applicationUpdates = True,
        connectionRequests = True, endorsements = True, recommendations = True,
        assessmentInvitations = True, weeklyDigest = True, frequency = Immediate\<rparr>,
      quietHours = \<lparr>quiet_enabled = False, startTime = ''22:00'', endTime = ''08:00'',
        timezone = ''UTC''\<rparr>\<rparr>"

section \<open>JavaScript primitives used by the code\<close>

text \<open>Truthiness of an optional string: \<open>undefined\<close> and the empty string are falsy.\<close>

fun falsy :: "string option \<Rightarrow> bool" where
  "falsy None = True"
| "falsy (Some s) = (s = [])"

text \<open>A template literal \<open>`${x}`\<close> prints \<open>undefined\<close> for a missing value.\<close>

fun interp :: "string option \<Rightarrow> string" where
  "interp None = ''undefined''"
| "interp (Some s) = s"

text \<open>White space as \<open>parseInt\<close> and the pattern \<open>\s\<close> see it, for ASCII text.\<close>

definition is_space :: "char \<Rightarrow> bool" where
  "is_space c = (c = CHR '' '' \<or> c = CHR 0x09 \<or> c = CHR 0x0A \<or> c = CHR 0x0B
     \<or> c = CHR 0x0C \<or> c = CHR 0x0D)"

definition digit_val :: "char \<Rightarrow> nat option" where
  "digit_val c =
     (let n = (of_char c :: nat) in
      if 48 \<le> n \<and> n \<le> 57 then Some (n - 48)
      else if 97 \<le> n \<and> n \<le> 122 then Some (n - 87)
      else if 65 \<le> n \<and> n \<le> 90 then Some (n - 55)
      else None)"

text \<open>The longest prefix of digits valid in the radix, as their values.\<close>

fun digits_prefix :: "nat \<Rightarrow> string \<Rightarrow> nat list" where
  "digits_prefix r [] = []"
| "digits_prefix r (c # cs) =
     (case digit_val c of
        None \<Rightarrow> []
      | Some d \<Rightarrow> (if d < r then d # digits_prefix r cs else []))"

fun strip_sign :: "string \<Rightarrow> bool \<times> string" where
  "strip_sign [] = (False, [])"
| "strip_sign (c # cs) =
     (if c = CHR ''-'' then (True, cs)
      else if c = CHR ''+'' then (False, cs)
      else (False, c # cs))"

fun strip_hex :: "string \<Rightarrow> nat \<times> string" where
  "strip_hex (a # b # cs) =
     (if a = CHR ''0'' \<and> (b = CHR ''x'' \<or> b = CHR ''X'') then (16, cs) else (10, a # b # cs))"
| "strip_hex cs = (10, cs)"

text \<open>
  \<open>parseInt(s)\<close> with no radix: leading white space, a sign, a \<open>0x\<close> prefix, then the
  longest run of digits; \<open>None\<close> is \<open>NaN\<close>. The value is an exact integer, where
  JavaScript rounds a run of digits above \<open>2^53\<close>; hours of the day are far below.
\<close>

definition parseInt :: "string \<Rightarrow> int option" where
  "parseInt s =
     (let (neg, s1) = strip_sign (dropWhile is_space s);
          (r, s2) = strip_hex s1;
          ds = digits_prefix r s2;
          v = foldl (\<lambda>a d. a * int r + int d) 0 ds
      in if ds = [] then None else Some (if neg then - v else v))"

text \<open>\<open>s.split(':')[0]\<close>: the text before the first colon.\<close>

definition split_colon_first :: "string \<Rightarrow> string" where
  "split_colon_first s = takeWhile (\<lambda>c. c \<noteq> CHR '':'') s"

text \<open>Comparisons of numbers that may be \<open>NaN\<close>: any comparison with \<open>NaN\<close> is false.\<close>

fun js_gt :: "int option \<Rightarrow> int option \<Rightarrow> bool" where
  "js_gt (Some a) (Some b) = (a > b)"
| "js_gt _ _ = False"

fun js_ge :: "int option \<Rightarrow> int option \<Rightarrow> bool" where
  "js_ge (Some a) (Some b) = (a \<ge> b)"
| "js_ge _ _ = False"

fun js_le :: "int option \<Rightarrow> int option \<Rightarrow> bool" where
  "js_le (Some a) (Some b) = (a \<le> b)"
| "js_le _ _ = False"

section \<open>Eligibility filter (EmailQueueProcessor.shouldSkipEmail)\<close>

definition typePreferenceMap :: "string \<Rightarrow> string option" where
  "typePreferenceMap t =
     (if t = ''job_alert'' then Some ''jobMatches''
      else if t = ''application_confirmation'' then Some ''applicationUpdates''
      else if t = ''notification_immediate'' then Some ''applicationUpdates''
      else if t = ''interview_reminder'' then Some ''applicationUpdates''
      else if t = ''daily_digest'' then Some ''weeklyDigest''
      else if t = ''weekly_digest'' then Some ''weeklyDigest''
      else None)"

text \<open>\<open>emailPrefs[prefKey]\<close> for the keys the map can produce.\<close>

definition emailPrefs_get :: "email_prefs \<Rightarrow> string \<Rightarrow> bool option" where
  "emailPrefs_get p k =
     (if k = ''jobMatches'' then Some (jobMatches p)
      else if k = ''applicationUpdates'' then Some (applicationUpdates p)
      else if k = ''weeklyDigest'' then Some (weeklyDigest p)
      else None)"

text \<open>
  The quiet-hours test of \<open>shouldSkipEmail\<close>. \<open>currentHour\<close> is
  \<open>new Date().getHours()\<close>, the hour of the server's local clock.
\<close>

definition inQuietHours :: "quiet_hours \<Rightarrow> int \<Rightarrow> bool" where
  "inQuietHours q currentHour =
     (let startHour = parseInt (split_colon_first (startTime q));
          endHour = parseInt (split_colon_first (endTime q))
      in if js_gt startHour endHour
         then js_ge (Some currentHour) startHour \<or> js_le (Some currentHour) endHour
         else js_ge (Some currentHour) startHour \<and> js_le (Some currentHour) endHour)"

definition shouldSkipEmail ::
  "email_job \<Rightarrow> notification_preferences option \<Rightarrow> int \<Rightarrow> bool" where
  "shouldSkipEmail emailJob preferences currentHour =
     (case preferences of
        None \<Rightarrow> True
      | Some prefs \<Rightarrow>
          if \<not> email_enabled (pref_email prefs) then True
          else if (case typePreferenceMap (emailType emailJob) of
                     None \<Rightarrow> False
                   | Some prefKey \<Rightarrow> emailPrefs_get (pref_email prefs) prefKey = Some False)
          then True
          else if quiet_enabled (quietHours prefs)
          then inQuietHours (quietHours prefs) currentHour
          else False)"

section \<open>Outbound mail (EmailService in services/emailService.js)\<close>

record send_args =
  arg_to :: "string option"
  arg_from :: "string option"
  arg_subject :: "string option"
  arg_template :: "string option"
  arg_html :: "string option"
  arg_text :: "string option"
  arg_templateId :: "string option"

text \<open>The \<open>emailData\<close> object handed to a provider sender.\<close>

record email_data =
  m_to :: "string option"
  m_from :: "string option"
  m_subject :: "string option"
  m_html :: "string option"
  m_text :: "string option"
  m_templateId :: "string option"

record receipt =
  r_messageId :: string
  r_provider :: string

text \<open>
  What \<open>sendEmail\<close> reads from outside: the configured provider, the outcome of
  \<open>compileTemplate\<close> for a template name (\<open>Inl\<close> the message of the error it throws,
  \<open>Inr\<close> the rendered HTML), the outcome of the SendGrid and SES calls on a message
  (\<open>Inl\<close> the error message, \<open>Inr\<close> the message id), the \<open>FROM_EMAIL\<close> setting and the
  printed \<open>Date.now()\<close> of the development sender.
\<close>

record mail_env =
  provider :: string
  compileTemplate :: "string \<Rightarrow> string + string"
  sgMail_send :: "email_data \<Rightarrow> string + string"
  ses_sendEmail :: "email_data \<Rightarrow> string + string"
  FROM_EMAIL :: "string option"
  dateNowStr :: string

fun strip_tags :: "bool \<Rightarrow> string \<Rightarrow> string" where
  "strip_tags inTag [] = []"
| "strip_tags True (c # cs) = (if c = CHR ''>'' then strip_tags False cs else strip_tags True cs)"
| "strip_tags False (c # cs) =
     (if c = CHR ''<'' \<and> CHR ''>'' \<in> set cs then strip_tags True cs
      else c # strip_tags False cs)"

fun collapse_spaces :: "bool \<Rightarrow> string \<Rightarrow> string" where
  "collapse_spaces afterSpace [] = []"
| "collapse_spaces afterSpace (c # cs) =
     (if is_space c
      then (if afterSpace then collapse_spaces True cs else CHR '' '' # collapse_spaces True cs)
      else c # collapse_spaces False cs)"

definition trim :: "string \<Rightarrow> string" where
  "trim s = rev (dropWhile is_space (rev (dropWhile is_space s)))"

text \<open>\<open>htmlToText\<close>: drop \<open><...>\<close> tags, collapse white space, trim.\<close>

definition htmlToText :: "string \<Rightarrow> string" where
  "htmlToText html = trim (collapse_spaces False (strip_tags False html))"

definition default_from :: "mail_env \<Rightarrow> string option \<Rightarrow> string option" where
  "default_from env f =
     (if \<not> falsy f then f
      else if \<not> falsy (FROM_EMAIL env) then FROM_EMAIL env
      else Some ''noreply@jobportal.com'')"

text \<open>The message \<open>sendWithSendGrid\<close> builds, and the call's outcome.\<close>

definition sendgrid_msg :: "mail_env \<Rightarrow> email_data \<Rightarrow> email_data" where
  "sendgrid_msg env d =
     (let msg = d\<lparr>m_from := default_from env (m_from d)\<rparr>
      in if \<not> falsy (m_templateId d)
         then msg\<lparr>m_html := None, m_text := None, m_subject := None\<rparr>
         else msg\<lparr>m_templateId := None\<rparr>)"

definition sendWithSendGrid :: "mail_env \<Rightarrow> email_data \<Rightarrow> string + receipt" where
  "sendWithSendGrid env d =
     (case sgMail_send env (sendgrid_msg env d) of
        Inl err \<Rightarrow> Inl err
      | Inr mid \<Rightarrow> Inr \<lparr>r_messageId = mid, r_provider = ''sendgrid''\<rparr>)"

definition ses_params :: "mail_env \<Rightarrow> email_data \<Rightarrow> email_data" where
  "ses_params env d =
     \<lparr>m_to = m_to d, m_from = default_from env (m_from d), m_subject = m_subject d,
      m_html = (if falsy (m_html d) then None else m_html d),
      m_text = (if falsy (m_text d) then None else m_text d),
      m_templateId = None\<rparr>"

definition sendWithAWSSES :: "mail_env \<Rightarrow> email_data \<Rightarrow> string + receipt" where
  "sendWithAWSSES env d =
     (case ses_sendEmail env (ses_params env d) of
        Inl err \<Rightarrow> Inl err
      | Inr mid \<Rightarrow> Inr \<lparr>r_messageId = mid, r_provider = ''aws-ses''\<rparr>)"

definition sendWithDevelopmentMode :: "mail_env \<Rightarrow> email_data \<Rightarrow> string + receipt" where
  "sendWithDevelopmentMode env d =
     Inr \<lparr>r_messageId = ''dev_'' @ dateNowStr env, r_provider = ''development''\<rparr>"

text \<open>
  The result of \<open>sendEmail\<close>: the \<open>emailData\<close> of every provider sender it invoked, and
  what it returned (\<open>Inl\<close> the message of the error it threw).
\<close>

record send_result =
  sr_calls :: "email_data list"
  sr_outcome :: "string + receipt"

text \<open>The template step of \<open>sendEmail\<close>: the HTML and text it goes on with.\<close>

definition render_step :: "mail_env \<Rightarrow> send_args \<Rightarrow> string option \<times> string option" where
  "render_step env a =
     (case arg_template a of
        None \<Rightarrow> (arg_html a, arg_text a)
      | Some t \<Rightarrow>
          if t = [] then (arg_html a, arg_text a)
          else (case compileTemplate env t of
                  Inr html \<Rightarrow>
                    (Some html, if falsy (arg_text a) then Some (htmlToText html) else arg_text a)
                | Inl templateError \<Rightarrow>
                    (Some (''<h1>'' @ interp (arg_subject a)
                             @ ''</h1><p>Email content would be here.</p>''),
                     Some (interp (arg_subject a) @ '' - Email content would be here.''))))"

definition sendEmail :: "mail_env \<Rightarrow> send_args \<Rightarrow> send_result" where
  "sendEmail env a =
     (if falsy (arg_to a) then \<lparr>sr_calls = [], sr_outcome = Inl ''Recipient email is required''\<rparr>
      else if falsy (arg_subject a) \<and> falsy (arg_template a) \<and> falsy (arg_templateId a)
      then \<lparr>sr_calls = [], sr_outcome = Inl ''Subject or template is required''\<rparr>
      else
        let (emailHtml, emailText) = render_step env a;
            emailData = \<lparr>m_to = arg_to a, m_from = arg_from a, m_subject = arg_subject a,
                         m_html = emailHtml, m_text = emailText,
                         m_templateId = arg_templateId a\<rparr>
        in if provider env = ''development''
           then \<lparr>sr_calls = [emailData], sr_outcome = sendWithDevelopmentMode env emailData\<rparr>
           else if provider env = ''sendgrid''
           then \<lparr>sr_calls = [emailData], sr_outcome = sendWithSendGrid env emailData\<rparr>
           else if provider env = ''aws-ses''
           then (if \<not> falsy (arg_templateId a)
                 then \<lparr>sr_calls = [], sr_outcome = Inl
                   ''Dynamic templates not supported with AWS SES. Use template parameter instead.''\<rparr>
                 else \<lparr>sr_calls = [emailData], sr_outcome = sendWithAWSSES env emailData\<rparr>)
           else \<lparr>sr_calls = [], sr_outcome = Inl ''Invalid email provider configured''\<rparr>)"

section \<open>Queue processor (services/emailQueueProcessor.js)\<close>

definition batchSize :: nat where "batchSize = 10"
definition retryAttempts :: nat where "retryAttempts = 3"
definition retryDelay :: int where "retryDelay = 5 * 60 * 1000"

record processor =
  isProcessing :: bool

text \<open>
  What one call of \<open>processEmailJob\<close> reads from outside: the populated recipient
  (\<open>None\<close> when the user no longer exists), the recipient's preference document, the
  hour of the server's local clock, the mail environment, and the three clock readings
  (\<open>lastAttempt\<close>, \<open>sentAt\<close>, and the \<open>Date.now()\<close> of the retry).
\<close>

record job_env =
  populated :: "user_doc option"
  preferences :: "notification_preferences option"
  currentHour :: int
  mail :: mail_env
  tAttempt :: date
  tSent :: date
  tRetry :: date

text \<open>
  The outcome of \<open>processEmailJob\<close>: the document as last saved, whether the call
  threw, and the \<open>emailData\<close> of the provider senders invoked.
\<close>

record job_result =
  res_job :: email_job
  res_threw :: bool
  res_sends :: "email_data list"

text \<open>The argument object of the \<open>emailService.sendEmail\<close> call in \<open>processEmailJob\<close>.\<close>

definition job_send_args :: "email_job \<Rightarrow> user_doc \<Rightarrow> send_args" where
  "job_send_args emailJob u =
     \<lparr>arg_to = user_email u, arg_from = None,
      arg_subject = Some (subject emailJob), arg_template = None,
      arg_html = Some (htmlContent emailJob), arg_text = textContent emailJob,
      arg_templateId = None\<rparr>"

text \<open>
  \<open>processEmailJob\<close>. Saving a document always succeeds here. With no populated
  recipient, \<open>emailJob.recipient._id\<close> throws inside the \<open>try\<close>, and the handler throws
  again at \<open>emailJob.recipient.email\<close>, before it changes the job.
\<close>

definition processEmailJob :: "job_env \<Rightarrow> email_job \<Rightarrow> job_result" where
  "processEmailJob env emailJob0 =
     (let emailJob = emailJob0\<lparr>status := Processing, attempts := attempts emailJob0 + 1,
                                lastAttempt := Some (tAttempt env)\<rparr>
      in case populated env of
           None \<Rightarrow> \<lparr>res_job = emailJob, res_threw = True, res_sends = []\<rparr>
         | Some u \<Rightarrow>
             if shouldSkipEmail emailJob (preferences env) (currentHour env)
             then \<lparr>res_job = emailJob\<lparr>status := Cancelled,
                      failureReason := Some ''User has opted out of this email type''\<rparr>,
                   res_threw = False, res_sends = []\<rparr>
             else
               let r = sendEmail (mail env) (job_send_args emailJob u)
               in (case sr_outcome r of
                     Inr rc \<Rightarrow>
                       \<lparr>res_job = emailJob\<lparr>status := Sent, sentAt := Some (tSent env)\<rparr>,
                        res_threw = False, res_sends = sr_calls r\<rparr>
                   | Inl message \<Rightarrow>
                       \<lparr>res_job =
                          (if attempts emailJob \<ge> retryAttempts
                           then emailJob\<lparr>status := Failed, failureReason := Some message\<rparr>
                           else emailJob\<lparr>status := Pending,
                                  scheduledFor := tRetry env + retryDelay\<rparr>),
                        res_threw = False, res_sends = sr_calls r\<rparr>))"

section \<open>The queue collection and the processor's tick\<close>

text \<open>
  MongoDB compares strings byte by byte (no collation is configured), which is the
  lexicographic order on character codes.
\<close>

fun str_less :: "string \<Rightarrow> string \<Rightarrow> bool" where
  "str_less [] [] = False"
| "str_less [] (y # ys) = True"
| "str_less (x # xs) [] = False"
| "str_less (x # xs) (y # ys) =
     ((of_char x :: nat) < of_char y \<or> (x = y \<and> str_less xs ys))"

text \<open>
  \<open>sort({ priority: -1, createdAt: 1 })\<close>: whether document \<open>a\<close> may stand before
  document \<open>b\<close>. The priority key is the stored string, descending.
\<close>

definition sort_before :: "email_job \<Rightarrow> email_job \<Rightarrow> bool" where
  "sort_before a b =
     (if priority_str (priority a) = priority_str (priority b)
      then createdAt a \<le> createdAt b
      else str_less (priority_str (priority b)) (priority_str (priority a)))"

text \<open>A stable insertion sort: documents with equal keys keep their collection order.\<close>

fun insert_doc :: "nat \<times> email_job \<Rightarrow> (nat \<times> email_job) list \<Rightarrow> (nat \<times> email_job) list" where
  "insert_doc d [] = [d]"
| "insert_doc d (x # xs) =
     (if sort_before (snd d) (snd x) then d # x # xs else x # insert_doc d xs)"

definition sort_docs :: "(nat \<times> email_job) list \<Rightarrow> (nat \<times> email_job) list" where
  "sort_docs ds = foldr insert_doc ds []"

definition is_due :: "date \<Rightarrow> email_job \<Rightarrow> bool" where
  "is_due now j = (status j = Pending \<and> scheduledFor j \<le> now \<and> attempts j < retryAttempts)"

text \<open>The query of \<open>processQueue\<close>: filter, sort, limit; each document with its id.\<close>

definition findPending :: "date \<Rightarrow> email_job list \<Rightarrow> (nat \<times> email_job) list" where
  "findPending now store =
     take batchSize (sort_docs (filter (\<lambda>d. is_due now (snd d)) (enumerate 0 store)))"

text \<open>
  What a tick reads from outside: the time of the query and, for each job id, the
  environment of that job's \<open>processEmailJob\<close> call.
\<close>

record tick_env =
  tNow :: date
  jobEnv :: "nat \<Rightarrow> job_env"

text \<open>
  \<open>save()\<close> of a held document: it sets on the stored document the paths whose held
  value differs from the value the document had when it was loaded or last saved
  (\<open>base\<close>), and leaves every other path of the stored document as it is. It carries
  no condition on the stored status. The paths are those the code assigns.
\<close>

definition save_modified :: "email_job \<Rightarrow> email_job \<Rightarrow> email_job \<Rightarrow> email_job" where
  "save_modified base held stored =
     stored\<lparr>status := (if status held = status base then status stored else status held),
            scheduledFor :=
              (if scheduledFor held = scheduledFor base then scheduledFor stored
               else scheduledFor held),
            attempts := (if attempts held = attempts base then attempts stored else attempts held),
            lastAttempt :=
              (if lastAttempt held = lastAttempt base then lastAttempt stored
               else lastAttempt held),
            sentAt := (if sentAt held = sentAt base then sentAt stored else sentAt held),
            failureReason :=
              (if failureReason held = failureReason base then failureReason stored
               else failureReason held)\<rparr>"

text \<open>The held document at the first \<open>save()\<close> of \<open>processEmailJob\<close>.\<close>

definition mark_processing :: "job_env \<Rightarrow> email_job \<Rightarrow> email_job" where
  "mark_processing env emailJob0 =
     emailJob0\<lparr>status := Processing, attempts := attempts emailJob0 + 1,
               lastAttempt := Some (tAttempt env)\<rparr>"

text \<open>
  The \<open>for\<close> loop of \<open>processQueue\<close> over the documents the query returned, with no
  other request touching the collection while it runs. Each document is saved twice:
  marked as processing, then with the outcome (when \<open>processEmailJob\<close> throws, the
  held document is still the marked one and the second save changes nothing). A call
  of \<open>processEmailJob\<close> that throws ends the loop (the error reaches the \<open>catch\<close> of
  \<open>processQueue\<close>). The result is the collection and the provider senders invoked.
\<close>

fun processBatch ::
  "tick_env \<Rightarrow> (nat \<times> email_job) list \<Rightarrow> email_job list \<Rightarrow> email_job list \<times> email_data list" where
  "processBatch e [] store = (store, [])"
| "processBatch e (d # ds) store =
     (let marked = mark_processing (jobEnv e (fst d)) (snd d);
          r = processEmailJob (jobEnv e (fst d)) (snd d);
          store1 = store[fst d := save_modified marked (res_job r)
                                    (save_modified (snd d) marked (store ! fst d))]
      in if res_threw r then (store1, res_sends r)
         else (let (store2, sends) = processBatch e ds store1
               in (store2, res_sends r @ sends)))"

text \<open>
  \<open>processQueue\<close> in two phases, split at its first \<open>await\<close>: the guard on
  \<open>isProcessing\<close>, setting the flag and the query; then the loop and the reset of the
  flag. \<open>None\<close> is the early return of a tick that finds the flag set.
\<close>

definition processQueue_begin ::
  "processor \<Rightarrow> tick_env \<Rightarrow> email_job list \<Rightarrow> (processor \<times> (nat \<times> email_job) list) option" where
  "processQueue_begin p e store =
     (if isProcessing p then None
      else Some (p\<lparr>isProcessing := True\<rparr>, findPending (tNow e) store))"

definition processQueue_finish ::
  "processor \<Rightarrow> tick_env \<Rightarrow> (nat \<times> email_job) list \<Rightarrow> email_job list
     \<Rightarrow> processor \<times> email_job list \<times> email_data list" where
  "processQueue_finish p e pendingEmails store =
     (if pendingEmails = [] then (p\<lparr>isProcessing := False\<rparr>, store, [])
      else (let (store1, sends) = processBatch e pendingEmails store
            in (p\<lparr>isProcessing := False\<rparr>, store1, sends)))"

definition processQueue ::
  "processor \<Rightarrow> tick_env \<Rightarrow> email_job list \<Rightarrow> processor \<times> email_job list \<times> email_data list" where
  "processQueue p e store =
     (case processQueue_begin p e store of
        None \<Rightarrow> (p, store, [])
      | Some (p1, pendingEmails) \<Rightarrow> processQueue_finish p1 e pendingEmails store)"

text \<open>
  Two processor instances (two server processes, each with its own \<open>isProcessing\<close>
  flag) whose ticks overlap: both queries return before either loop runs. The result
  is the collection and the provider senders invoked by both.
\<close>

definition overlapping_ticks ::
  "processor \<Rightarrow> processor \<Rightarrow> tick_env \<Rightarrow> tick_env \<Rightarrow> email_job list
     \<Rightarrow> (email_job list \<times> email_data list) option" where
  "overlapping_ticks pA pB eA eB store =
     (case processQueue_begin pA eA store of
        None \<Rightarrow> None
      | Some (pA1, batchA) \<Rightarrow>
          (case processQueue_begin pB eB store of
             None \<Rightarrow> None
           | Some (pB1, batchB) \<Rightarrow>
               (let (pA2, storeA, sendsA) = processQueue_finish pA1 eA batchA store;
                    (pB2, storeB, sendsB) = processQueue_finish pB1 eB batchB storeA
                in Some (storeB, sendsA @ sendsB))))"

section \<open>Enqueueing (EmailQueue.create and the digest generator)\<close>

record create_args =
  c_recipient :: nat
  c_emailType :: string
  c_subject :: string
  c_htmlContent :: string
  c_textContent :: "string option"
  c_priority :: "job_priority option"
  c_scheduledFor :: "date option"

definition emailType_enum :: "string list" where
  "emailType_enum =
     [''notification_immediate'', ''daily_digest'', ''weekly_digest'',
      ''welcome'', ''password_reset'', ''account_verification'',
      ''job_alert'', ''application_confirmation'', ''interview_reminder'']"

text \<open>
  \<open>EmailQueue.create\<close>: schema validation (the enum of \<open>emailType\<close>, the required
  strings), then the defaults. \<open>Inl\<close> is the validation error.
\<close>

definition EmailQueue_create ::
  "date \<Rightarrow> create_args \<Rightarrow> email_job list \<Rightarrow> string + email_job list" where
  "EmailQueue_create now a store =
     (if c_emailType a \<notin> set emailType_enum \<or> c_subject a = [] \<or> c_htmlContent a = []
      then Inl ''ValidationError''
      else Inr (store @
        [\<lparr>recipient = c_recipient a, emailType = c_emailType a, subject = c_subject a,
          htmlContent = c_htmlContent a, textContent = c_textContent a,
          priority = (case c_priority a of None \<Rightarrow> Medium | Some p \<Rightarrow> p),
          status = Pending,
          scheduledFor = (case c_scheduledFor a of None \<Rightarrow> now | Some t \<Rightarrow> t),
          attempts = 0, lastAttempt = None, sentAt = None, failureReason = None,
          createdAt = now\<rparr>]))"

text \<open>
  \<open>createDailyDigestEmail\<close>: render the template, then create the job. An error of
  either step is thrown to the caller. \<open>compile\<close> is the outcome of
  \<open>emailService.compileTemplate\<close> for a template name.
\<close>

definition createDailyDigestEmail ::
  "(string \<Rightarrow> string + string) \<Rightarrow> date \<Rightarrow> nat \<Rightarrow> email_job list \<Rightarrow> string + email_job list" where
  "createDailyDigestEmail compile now user store =
     (case compile ''daily-digest'' of
        Inl err \<Rightarrow> Inl err
      | Inr html \<Rightarrow>
          EmailQueue_create now
            \<lparr>c_recipient = user, c_emailType = ''daily_digest'',
             c_subject = ''Your Daily JobPortal Digest'', c_htmlContent = html,
             c_textContent = None, c_priority = Some Low, c_scheduledFor = Some now\<rparr> store)"

text \<open>
  A stored document of the user collection: its id and its other fields. Documents
  written through the \<open>User\<close> model have top-level fields of \<open>userSchema\<close> only
  (\<open>conforms_userSchema\<close>).
\<close>

datatype mongo_value =
    VString string
  | VNumber int
  | VBool bool
  | VArray "mongo_value list"
  | VDoc "(string \<times> mongo_value) list"

record stored_user =
  u_id :: nat
  u_fields :: "(string \<times> mongo_value) list"

text \<open>The top-level paths of \<open>userSchema\<close> (models/userSchema.js).\<close>

definition userSchema_paths :: "string list" where
  "userSchema_paths =
     [''name'', ''email'', ''phone'', ''password'', ''role'', ''profilePhoto'', ''headline'',
      ''summary'', ''location'', ''experience'', ''education'', ''skills'', ''certifications'',
      ''socialLinks'', ''resume'', ''preferences'', ''connections'', ''company'',
      ''profileViews'', ''profileCompleteness'', ''searchAppearances'', ''privacy'',
      ''isVerified'', ''isPremium'', ''lastActive'', ''createdAt'']"

definition conforms_userSchema :: "stored_user \<Rightarrow> bool" where
  "conforms_userSchema u = list_all (\<lambda>k. k \<in> set userSchema_paths) (map fst (u_fields u))"

text \<open>A dotted path as its list of field names.\<close>

fun split_dots :: "string \<Rightarrow> string \<Rightarrow> string list" where
  "split_dots acc [] = [rev acc]"
| "split_dots acc (c # cs) =
     (if c = CHR ''.'' then rev acc # split_dots [] cs else split_dots (c # acc) cs)"

text \<open>The value at a path of a stored document (no array lies on the paths used here).\<close>

fun lookup_path :: "string list \<Rightarrow> mongo_value \<Rightarrow> mongo_value option" where
  "lookup_path [] v = Some v"
| "lookup_path (k # ks) (VDoc kvs) =
     (case map_of kvs k of None \<Rightarrow> None | Some v \<Rightarrow> lookup_path ks v)"
| "lookup_path (k # ks) v = None"

text \<open>
  \<open>User.find({}).where(path).equals(value)\<close>: the stored users whose document has the
  value at the path. (\<open>populate\<close> works on the documents found and decides nothing.)
\<close>

definition find_where :: "stored_user list \<Rightarrow> string \<Rightarrow> mongo_value \<Rightarrow> stored_user list" where
  "find_where users path v =
     filter (\<lambda>u. lookup_path (split_dots [] path) (VDoc (u_fields u)) = Some v) users"

text \<open>
  The \<open>for\<close> loop of \<open>generateDailyDigests\<close>: one \<open>createDailyDigestEmail\<close> per user
  found; the first error ends the loop and is logged.
\<close>

fun dailyDigestLoop ::
  "(string \<Rightarrow> string + string) \<Rightarrow> date \<Rightarrow> nat list \<Rightarrow> email_job list \<Rightarrow> email_job list" where
  "dailyDigestLoop compile now [] store = store"
| "dailyDigestLoop compile now (user # users) store =
     (case createDailyDigestEmail compile now user store of
        Inl err \<Rightarrow> store
      | Inr store1 \<Rightarrow> dailyDigestLoop compile now users store1)"

text \<open>\<open>generateDailyDigests\<close>: the query on the user collection, then the loop.\<close>

definition generateDailyDigests ::
  "(string \<Rightarrow> string + string) \<Rightarrow> date \<Rightarrow> stored_user list \<Rightarrow> email_job list \<Rightarrow> email_job list" where
  "generateDailyDigests compile now users store =
     dailyDigestLoop compile now
       (map u_id (find_where users ''notificationPreferences.preferences.email.frequency''
                    (VString ''daily'')))
       store"

definition createWeeklyDigestEmail ::
  "(string \<Rightarrow> string + string) \<Rightarrow> date \<Rightarrow> nat \<Rightarrow> email_job list \<Rightarrow> string + email_job list" where
  "createWeeklyDigestEmail compile now user store =
     (case compile ''weekly-digest'' of
        Inl err \<Rightarrow> Inl err
      | Inr html \<Rightarrow>
          EmailQueue_create now
            \<lparr>c_recipient = user, c_emailType = ''weekly_digest'',
             c_subject = ''Your Weekly JobPortal Summary'', c_htmlContent = html,
             c_textContent = None, c_priority = Some Low, c_scheduledFor = Some now\<rparr> store)"

fun weeklyDigestLoop ::
  "(string \<Rightarrow> string + string) \<Rightarrow> date \<Rightarrow> nat list \<Rightarrow> email_job list \<Rightarrow> email_job list" where
  "weeklyDigestLoop compile now [] store = store"
| "weeklyDigestLoop compile now (user # users) store =
     (case createWeeklyDigestEmail compile now user store of
        Inl err \<Rightarrow> store
      | Inr store1 \<Rightarrow> weeklyDigestLoop compile now users store1)"

definition generateWeeklyDigests ::
  "(string \<Rightarrow> string + string) \<Rightarrow> date \<Rightarrow> stored_user list \<Rightarrow> email_job list \<Rightarrow> email_job list" where
  "generateWeeklyDigests compile now users store =
     weeklyDigestLoop compile now
       (map u_id (find_where users ''notificationPreferences.preferences.email.weeklyDigest''
                    (VBool True)))
       store"

section \<open>Admin actions (retryFailedEmail, cancelEmail)\<close>

text \<open>An action's response: \<open>None\<close> is the 200, \<open>Some\<close> the status and message of the error.\<close>

type_synonym response = "(nat \<times> string) option"

definition findById :: "email_job list \<Rightarrow> nat \<Rightarrow> email_job option" where
  "findById store emailId = (if emailId < length store then Some (store ! emailId) else None)"

definition retryFailedEmail ::
  "string \<Rightarrow> nat \<Rightarrow> date \<Rightarrow> email_job list \<Rightarrow> response \<times> email_job list" where
  "retryFailedEmail role emailId now store =
     (if role \<noteq> ''Admin'' then (Some (403, ''Access denied. Admin only.''), store)
      else case findById store emailId of
             None \<Rightarrow> (Some (404, ''Email job not found''), store)
           | Some emailJob \<Rightarrow>
               if status emailJob \<noteq> Failed
               then (Some (400, ''Only failed emails can be retried''), store)
               else (None, store[emailId := emailJob\<lparr>status := Pending, attempts := 0,
                                   scheduledFor := now, failureReason := None\<rparr>]))"

definition cancelEmail ::
  "string \<Rightarrow> nat \<Rightarrow> email_job list \<Rightarrow> response \<times> email_job list" where
  "cancelEmail role emailId store =
     (if role \<noteq> ''Admin'' then (Some (403, ''Access denied. Admin only.''), store)
      else case findById store emailId of
             None \<Rightarrow> (Some (404, ''Email job not found''), store)
           | Some emailJob \<Rightarrow>
               if status emailJob \<noteq> Pending \<and> status emailJob \<noteq> Processing
               then (Some (400, ''Only pending or processing emails can be cancelled''), store)
               else (None, store[emailId := emailJob\<lparr>status := Cancelled,
                                   failureReason := Some ''Cancelled by admin''\<rparr>]))"

section \<open>Sequences of operations on the queue\<close>

datatype queue_op =
    Enqueue date create_args
  | Tick tick_env
  | AdminRetry string nat date
  | AdminCancel string nat

fun apply_op :: "queue_op \<Rightarrow> email_job list \<Rightarrow> email_job list" where
  "apply_op (Enqueue now a) store =
     (case EmailQueue_create now a store of Inl err \<Rightarrow> store | Inr store1 \<Rightarrow> store1)"
| "apply_op (Tick e) store = fst (snd (processQueue \<lparr>isProcessing = False\<rparr> e store))"
| "apply_op (AdminRetry role emailId now) store = snd (retryFailedEmail role emailId now store)"
| "apply_op (AdminCancel role emailId) store = snd (cancelEmail role emailId store)"


text \<open>
  Operations that do overlap. \<open>processEmailJob\<close> awaits the preference lookup and the
  send between its two saves, and other requests run meanwhile: \<open>meanwhile\<close> are the
  operations that land on the collection in that gap, in order. With none, this is
  one round of the loop of \<open>processBatch\<close>.
\<close>

definition processJob_amid ::
  "queue_op list \<Rightarrow> job_env \<Rightarrow> nat \<times> email_job \<Rightarrow> email_job list
     \<Rightarrow> email_job list \<times> job_result" where
  "processJob_amid meanwhile env d store =
     (let marked = mark_processing env (snd d);
          store1 = store[fst d := save_modified (snd d) marked (store ! fst d)];
          store2 = foldl (\<lambda>store op. apply_op op store) store1 meanwhile;
          r = processEmailJob env (snd d)
      in (store2[fst d := save_modified marked (res_job r) (store2 ! fst d)], r))"

section \<open>Sample data\<close>

definition sample_job :: email_job where
  "sample_job = \<lparr>recipient = 7, emailType = ''job_alert'', subject = ''New jobs'',
     htmlContent = ''<p>3 new jobs</p>'', textContent = None, priority = Medium,
     status = Pending, scheduledFor = 0, attempts = 0, lastAttempt = None, sentAt = None,
     failureReason = None, createdAt = 0\<rparr>"

definition sample_user :: user_doc where
  "sample_user = \<lparr>user_name = ''Ada'', user_email = Some ''ada@example.com''\<rparr>"

text \<open>A development-mode mail environment whose template files are missing.\<close>

definition dev_mail :: mail_env where
  "dev_mail = \<lparr>provider = ''development'', compileTemplate = (\<lambda>t. Inl ''ENOENT''),
     sgMail_send = (\<lambda>d. Inl ''Unauthorized''), ses_sendEmail = (\<lambda>d. Inl ''Throttled''),
     FROM_EMAIL = None, dateNowStr = ''1700000000000''\<rparr>"

text \<open>The same with SendGrid as the provider, whose call fails.\<close>

definition failing_mail :: mail_env where
  "failing_mail = dev_mail\<lparr>provider := ''sendgrid''\<rparr>"

definition sample_env :: job_env where
  "sample_env = \<lparr>populated = Some sample_user, preferences = Some default_preferences,
     currentHour = 23, mail = dev_mail, tAttempt = 1000, tSent = 1200, tRetry = 1300\<rparr>"

text \<open>Preference documents: quiet hours from 22:00 to 08:00; the channel disabled; job
  alerts opted out; quiet hours from 22:00 to 23:00 for a user in Tokyo.\<close>

definition quiet_prefs :: notification_preferences where
  "quiet_prefs = default_preferences\<lparr>quietHours :=
     \<lparr>quiet_enabled = True, startTime = ''22:00'', endTime = ''08:00'', timezone = ''UTC''\<rparr>\<rparr>"

definition disabled_prefs :: notification_preferences where
  "disabled_prefs = default_preferences\<lparr>pref_email :=
     (pref_email default_preferences)\<lparr>email_enabled := False\<rparr>\<rparr>"

definition optout_prefs :: notification_preferences where
  "optout_prefs = default_preferences\<lparr>pref_email :=
     (pref_email default_preferences)\<lparr>jobMatches := False\<rparr>\<rparr>"

definition tokyo_prefs :: notification_preferences where
  "tokyo_prefs = default_preferences\<lparr>quietHours :=
     \<lparr>quiet_enabled = True, startTime = ''22:00'', endTime = ''23:00'',
      timezone = ''Asia/Tokyo''\<rparr>\<rparr>"

text \<open>A tick at time \<open>t\<close> in which every job meets the sample environment with the
  given mail environment; the arguments of a job-alert enqueue.\<close>

definition sample_tick :: "date \<Rightarrow> mail_env \<Rightarrow> tick_env" where
  "sample_tick t m = \<lparr>tNow = t, jobEnv = (\<lambda>i. sample_env\<lparr>mail := m\<rparr>)\<rparr>"




text \<open>Three due jobs: a high-priority one created first, then a medium, then a low one.\<close>

definition priority_store :: "email_job list" where
  "priority_store =
     [sample_job\<lparr>priority := High, createdAt := 1\<rparr>,
      sample_job\<lparr>priority := Medium, createdAt := 2\<rparr>,
      sample_job\<lparr>priority := Low, createdAt := 3\<rparr>]"

text \<open>One due high-priority job, the oldest, and ten due medium-priority jobs.\<close>

definition crowded_store :: "email_job list" where
  "crowded_store =
     sample_job\<lparr>priority := High, createdAt := 1\<rparr>
       # replicate 10 (sample_job\<lparr>priority := Medium, createdAt := 2\<rparr>)"

text \<open>A templated send without a subject, and the same with one.\<close>

definition no_subject_args :: send_args where
  "no_subject_args = \<lparr>arg_to = Some ''ada@example.com'', arg_from = None, arg_subject = None,
     arg_template = Some ''welcome'', arg_html = None, arg_text = None, arg_templateId = None\<rparr>"

definition welcome_args :: send_args where
  "welcome_args = no_subject_args\<lparr>arg_subject := Some ''Welcome to JobPortal!''\<rparr>"

text \<open>A \<open>compileTemplate\<close> whose templates all render.\<close>

definition digest_mail :: "string \<Rightarrow> string + string" where
  "digest_mail t = Inr ''<p>digest</p>''"

text \<open>A user collection with one user, as the \<open>User\<close> model stores it. Whether the
  user wants a daily digest is recorded in the preference collection, not here.\<close>

definition sample_users :: "stored_user list" where
  "sample_users =
     [\<lparr>u_id = 7,
       u_fields = [(''name'', VString ''Ada''), (''email'', VString ''ada@example.com''),
                   (''role'', VString ''Job Seeker'')]\<rparr>]"

section \<open>The invariant of a delivery job\<close>


section \<open>The quiet-hours rule in the specification's words\<close>

text \<open>
  These three definitions follow the specification, not the code: the hour of an
  instant on a clock that is \<open>offsetMinutes\<close> ahead of UTC (\<open>getHours\<close> is this for
  the server's zone), the offsets of the zones used in the examples, and the window
  test on that hour.
\<close>

definition local_hour :: "date \<Rightarrow> int \<Rightarrow> int" where
  "local_hour t offsetMinutes = ((t + offsetMinutes * 60000) div 3600000) mod 24"

definition sample_zone_offset :: "string \<Rightarrow> int" where
  "sample_zone_offset z = (if z = ''Asia/Tokyo'' then 540 else 0)"

definition spec_in_quiet_window :: "int \<Rightarrow> int \<Rightarrow> int \<Rightarrow> bool" where
  "spec_in_quiet_window hour start end =
     (if start > end then hour \<ge> start \<or> hour \<le> end else start \<le> hour \<and> hour \<le> end)"

section \<open>Properties of the eligibility filter and of one processing attempt\<close>

lemma shouldSkipEmail_marked:
  "shouldSkipEmail (j\<lparr>status := s, attempts := a, lastAttempt := l\<rparr>) prefs h =
     shouldSkipEmail j prefs h"
  by (cases prefs) (simp_all add: shouldSkipEmail_def)

text \<open>
  Claim C10. A job whose recipient has no preference document is cancelled by
  \<open>processEmailJob\<close>: \<open>shouldSkipEmail\<close> answers true for a missing document, although
  it answers false for a document holding the schema's defaults. The attempt is
  counted, the provider is not called.
\<close>

theorem processEmailJob_without_preferences:
  assumes "populated env = Some u" and "preferences env = None"
  shows "shouldSkipEmail j None h
    \<and> \<not> shouldSkipEmail j (Some default_preferences) h
    \<and> processEmailJob env j =
           \<lparr>res_job = j\<lparr>status := Cancelled, attempts := attempts j + 1,
                         lastAttempt := Some (tAttempt env),
                         failureReason := Some ''User has opted out of this email type''\<rparr>,
            res_threw = False, res_sends = []\<rparr>"
  using assms
  by (simp add: processEmailJob_def shouldSkipEmail_def default_preferences_def
        typePreferenceMap_def emailPrefs_get_def Let_def)

theorem processEmailJob_without_preferences_witness:
  "res_job (processEmailJob (sample_env\<lparr>preferences := None\<rparr>) sample_job) =
     sample_job\<lparr>status := Cancelled, attempts := 1, lastAttempt := Some 1000,
       failureReason := Some ''User has opted out of this email type''\<rparr>"
  using processEmailJob_without_preferences
    [of "sample_env\<lparr>preferences := None\<rparr>" sample_user sample_job 0]
  by (simp add: sample_env_def sample_job_def)

text \<open>
  Claim C6. When the send of an eligible job throws, the job becomes \<open>failed\<close> with
  the error's message as \<open>failureReason\<close> if its attempts, this one included, have
  reached 3; otherwise it returns to \<open>pending\<close> with \<open>scheduledFor\<close> five minutes
  (300000 ms) after the clock reading of the handler.
\<close>

theorem processEmailJob_transport_failure:
  assumes "populated env = Some u"
    and "\<not> shouldSkipEmail j (preferences env) (currentHour env)"
    and "sr_outcome (sendEmail (mail env) (job_send_args j u)) = Inl message"
  shows "res_job (processEmailJob env j) =
           (if attempts j + 1 \<ge> 3
            then j\<lparr>status := Failed, attempts := attempts j + 1,
                   lastAttempt := Some (tAttempt env), failureReason := Some message\<rparr>
            else j\<lparr>status := Pending, attempts := attempts j + 1,
                   lastAttempt := Some (tAttempt env),
                   scheduledFor := tRetry env + 300000\<rparr>)"
proof -
  let ?j1 = "j\<lparr>status := Processing, attempts := attempts j + 1,
                lastAttempt := Some (tAttempt env)\<rparr>"
  have skip: "\<not> shouldSkipEmail ?j1 (preferences env) (currentHour env)"
    using assms(2) by (simp add: shouldSkipEmail_marked)
  have args: "job_send_args ?j1 u = job_send_args j u"
    by (simp add: job_send_args_def)
  show ?thesis
    using assms(1,3) skip args
    by (simp add: processEmailJob_def Let_def retryAttempts_def retryDelay_def)
qed

theorem processEmailJob_transport_failure_witness:
  "res_job (processEmailJob (sample_env\<lparr>mail := failing_mail\<rparr>) (sample_job\<lparr>attempts := 2\<rparr>)) =
     sample_job\<lparr>status := Failed, attempts := 3, lastAttempt := Some 1000,
       failureReason := Some ''Unauthorized''\<rparr>
   \<and> res_job (processEmailJob (sample_env\<lparr>mail := failing_mail\<rparr>) sample_job) =
     sample_job\<lparr>status := Pending, attempts := 1, lastAttempt := Some 1000,
       scheduledFor := 301300\<rparr>"
proof -
  let ?env = "sample_env\<lparr>mail := failing_mail\<rparr>"
  have p: "populated ?env = Some sample_user"
    by (simp add: sample_env_def)
  have s: "\<not> shouldSkipEmail j (preferences ?env) (currentHour ?env)" for j
    by (simp add: sample_env_def shouldSkipEmail_def default_preferences_def
          typePreferenceMap_def emailPrefs_get_def)
  have t: "sr_outcome (sendEmail (mail ?env) (job_send_args j sample_user)) = Inl ''Unauthorized''"
    if "subject j \<noteq> []" for j
    using that
    by (simp add: sample_env_def failing_mail_def dev_mail_def sendEmail_def job_send_args_def
          sample_user_def render_step_def sendWithSendGrid_def)
  have t0: "subject sample_job \<noteq> []" "subject (sample_job\<lparr>attempts := 2\<rparr>) \<noteq> []"
    by (simp_all add: sample_job_def)
  show ?thesis
    using processEmailJob_transport_failure [OF p s t [OF t0(2)]]
      processEmailJob_transport_failure [OF p s t [OF t0(1)]]
    by (simp add: sample_env_def sample_job_def)
qed

lemma parse_hours:
  "parseInt (split_colon_first ''22:00'') = Some 22"
  "parseInt (split_colon_first ''08:00'') = Some 8"
  "parseInt (split_colon_first ''23:00'') = Some 23"
  by (simp_all add: parseInt_def split_colon_first_def is_space_def digit_val_def)

text \<open>
  Claim C1, as the code has it. A job evaluated while its recipient's quiet hours are
  enabled and the hour is inside the window is not returned to \<open>pending\<close>: it is
  saved as \<open>cancelled\<close> with the opt-out reason, \<open>scheduledFor\<close> is left as it was, the
  attempt stays counted, and the provider is not called.
\<close>

theorem processEmailJob_quiet_hours:
  assumes "populated env = Some u" and "preferences env = Some prefs"
    and "quiet_enabled (quietHours prefs)"
    and "inQuietHours (quietHours prefs) (currentHour env)"
  shows "processEmailJob env j =
           \<lparr>res_job = j\<lparr>status := Cancelled, attempts := attempts j + 1,
                         lastAttempt := Some (tAttempt env),
                         failureReason := Some ''User has opted out of this email type''\<rparr>,
            res_threw = False, res_sends = []\<rparr>"
proof -
  have "shouldSkipEmail j (Some prefs) (currentHour env)"
    using assms(3,4) by (simp add: shouldSkipEmail_def)
  then show ?thesis
    using assms(1,2) by (simp add: processEmailJob_def Let_def shouldSkipEmail_marked)
qed

theorem processEmailJob_quiet_hours_witness:
  "processEmailJob (sample_env\<lparr>preferences := Some quiet_prefs\<rparr>) sample_job =
     \<lparr>res_job = sample_job\<lparr>status := Cancelled, attempts := 1, lastAttempt := Some 1000,
        failureReason := Some ''User has opted out of this email type''\<rparr>,
      res_threw = False, res_sends = []\<rparr>"
proof -
  let ?env = "sample_env\<lparr>preferences := Some quiet_prefs\<rparr>"
  have a: "populated ?env = Some sample_user" "preferences ?env = Some quiet_prefs"
    by (simp_all add: sample_env_def)
  have b: "quiet_enabled (quietHours quiet_prefs)"
    by (simp add: quiet_prefs_def)
  have c: "inQuietHours (quietHours quiet_prefs) (currentHour ?env)"
    by (simp add: quiet_prefs_def inQuietHours_def parse_hours sample_env_def)
  show ?thesis
    using processEmailJob_quiet_hours [OF a b c, of sample_job]
    by (simp add: sample_env_def sample_job_def)
qed

text \<open>
  Claim C1 as stated fails: with quiet hours 22:00 to 08:00 at hour 23 the job ends
  \<open>cancelled\<close>, not \<open>pending\<close>; it is not rescheduled; its attempts went from 0 to 1.
\<close>

theorem quiet_hours_deferral_counterexample:
  "quiet_enabled (quietHours quiet_prefs)
   \<and> inQuietHours (quietHours quiet_prefs) 23
   \<and> status (res_job (processEmailJob (sample_env\<lparr>preferences := Some quiet_prefs\<rparr>) sample_job))
       = Cancelled
   \<and> scheduledFor (res_job (processEmailJob (sample_env\<lparr>preferences := Some quiet_prefs\<rparr>) sample_job))
       = scheduledFor sample_job
   \<and> attempts (res_job (processEmailJob (sample_env\<lparr>preferences := Some quiet_prefs\<rparr>) sample_job))
       = attempts sample_job + 1"
  by (simp add: quiet_prefs_def inQuietHours_def parse_hours sample_env_def sample_job_def
        processEmailJob_def shouldSkipEmail_def default_preferences_def typePreferenceMap_def
        emailPrefs_get_def Let_def)

text \<open>
  Claim C9, as the code has it. With the channel enabled, the type not opted out and
  quiet hours enabled, \<open>shouldSkipEmail\<close> answers true exactly when the hour it read
  from the clock is inside the window given by the hour parts of \<open>startTime\<close> and
  \<open>endTime\<close>: \<open>hour >= start or hour <= end\<close> when the start hour is greater than the
  end hour, \<open>start <= hour <= end\<close> otherwise. The answer is a boolean without a reason.
\<close>

theorem shouldSkipEmail_quiet_hours:
  assumes "email_enabled (pref_email prefs)"
    and "\<forall>k. typePreferenceMap (emailType j) = Some k
           \<longrightarrow> emailPrefs_get (pref_email prefs) k \<noteq> Some False"
    and "quiet_enabled (quietHours prefs)"
    and "parseInt (split_colon_first (startTime (quietHours prefs))) = Some s"
    and "parseInt (split_colon_first (endTime (quietHours prefs))) = Some e"
  shows "shouldSkipEmail j (Some prefs) h =
           (if s > e then h \<ge> s \<or> h \<le> e else s \<le> h \<and> h \<le> e)"
  using assms
  by (auto simp add: shouldSkipEmail_def inQuietHours_def split: option.splits)

theorem shouldSkipEmail_quiet_hours_witness:
  "shouldSkipEmail sample_job (Some quiet_prefs) 23
   \<and> shouldSkipEmail sample_job (Some quiet_prefs) 8
   \<and> \<not> shouldSkipEmail sample_job (Some quiet_prefs) 9
   \<and> shouldSkipEmail sample_job (Some tokyo_prefs) 22
   \<and> \<not> shouldSkipEmail sample_job (Some tokyo_prefs) 8"
proof -
  have a: "email_enabled (pref_email quiet_prefs)" "email_enabled (pref_email tokyo_prefs)"
    by (simp_all add: quiet_prefs_def tokyo_prefs_def default_preferences_def)
  have b: "\<forall>k. typePreferenceMap (emailType sample_job) = Some k
             \<longrightarrow> emailPrefs_get (pref_email quiet_prefs) k \<noteq> Some False"
    "\<forall>k. typePreferenceMap (emailType sample_job) = Some k
             \<longrightarrow> emailPrefs_get (pref_email tokyo_prefs) k \<noteq> Some False"
    by (simp_all add: quiet_prefs_def tokyo_prefs_def default_preferences_def sample_job_def
          typePreferenceMap_def emailPrefs_get_def)
  have c: "quiet_enabled (quietHours quiet_prefs)" "quiet_enabled (quietHours tokyo_prefs)"
    by (simp_all add: quiet_prefs_def tokyo_prefs_def)
  have d: "parseInt (split_colon_first (startTime (quietHours quiet_prefs))) = Some 22"
    "parseInt (split_colon_first (endTime (quietHours quiet_prefs))) = Some 8"
    "parseInt (split_colon_first (startTime (quietHours tokyo_prefs))) = Some 22"
    "parseInt (split_colon_first (endTime (quietHours tokyo_prefs))) = Some 23"
    by (simp_all add: quiet_prefs_def tokyo_prefs_def parse_hours)
  show ?thesis
    using shouldSkipEmail_quiet_hours [OF a(1) b(1) c(1) d(1,2), of 23]
      shouldSkipEmail_quiet_hours [OF a(1) b(1) c(1) d(1,2), of 8]
      shouldSkipEmail_quiet_hours [OF a(1) b(1) c(1) d(1,2), of 9]
      shouldSkipEmail_quiet_hours [OF a(2) b(2) c(2) d(3,4), of 22]
      shouldSkipEmail_quiet_hours [OF a(2) b(2) c(2) d(3,4), of 8]
    by simp
qed

text \<open>
  Claim C9 as stated fails. The server's clock is on UTC and the user's quiet hours
  are 22:00 to 23:00 in \<open>Asia/Tokyo\<close>. At 13:00 UTC it is 22:00 in Tokyo, inside the
  window, and the job is not skipped; at 23:00 UTC it is 08:00 in Tokyo, outside the
  window, and the job is skipped, with the opt-out text as the recorded reason.
\<close>

theorem quiet_hours_timezone_counterexample:
  "spec_in_quiet_window
      (local_hour 46800000 (sample_zone_offset (timezone (quietHours tokyo_prefs)))) 22 23
   \<and> \<not> shouldSkipEmail sample_job (Some tokyo_prefs) (local_hour 46800000 0)
   \<and> \<not> spec_in_quiet_window
      (local_hour 82800000 (sample_zone_offset (timezone (quietHours tokyo_prefs)))) 22 23
   \<and> shouldSkipEmail sample_job (Some tokyo_prefs) (local_hour 82800000 0)
   \<and> failureReason (res_job (processEmailJob
         (sample_env\<lparr>preferences := Some tokyo_prefs, currentHour := local_hour 82800000 0\<rparr>)
         sample_job)) = Some ''User has opted out of this email type''"
  by (simp add: spec_in_quiet_window_def local_hour_def sample_zone_offset_def tokyo_prefs_def
        shouldSkipEmail_def inQuietHours_def parse_hours default_preferences_def
        typePreferenceMap_def emailPrefs_get_def sample_job_def sample_env_def
        processEmailJob_def Let_def)


section \<open>Properties of the queue query and of a tick\<close>

lemma set_insert_doc: "set (insert_doc d xs) = insert d (set xs)"
  by (induction xs) auto

lemma set_sort_docs: "set (sort_docs ds) = set ds"
  unfolding sort_docs_def by (induction ds) (simp_all add: set_insert_doc)

lemma length_insert_doc: "length (insert_doc d xs) = Suc (length xs)"
  by (induction xs) auto

lemma length_sort_docs: "length (sort_docs ds) = length ds"
  unfolding sort_docs_def by (induction ds) (simp_all add: length_insert_doc)

lemma findPending_member:
  assumes "(i, j) \<in> set (findPending now store)"
  shows "i < length store \<and> j = store ! i \<and> is_due now j"
proof -
  from assms have "(i, j) \<in> set (sort_docs (filter (\<lambda>d. is_due now (snd d)) (enumerate 0 store)))"
    unfolding findPending_def by (rule in_set_takeD)
  then have "(i, j) \<in> set (enumerate 0 store)" and "is_due now j"
    by (simp_all add: set_sort_docs)
  then show ?thesis
    by (simp add: in_set_enumerate_eq)
qed

lemma length_processBatch: "length (fst (processBatch e ds store)) = length store"
  by (induction ds arbitrary: store) (simp_all add: Let_def case_prod_beta)

lemma processBatch_untouched:
  "i \<notin> fst ` set ds \<Longrightarrow> fst (processBatch e ds store) ! i = store ! i"
proof (induction ds arbitrary: store)
  case Nil
  then show ?case by simp
next
  case (Cons d ds)
  then have "i \<noteq> fst d" and "i \<notin> fst ` set ds" by auto
  then show ?case
    using Cons.IH by (simp add: Let_def case_prod_beta)
qed

lemma processQueue_untouched:
  assumes "i < length store" and "\<not> is_due (tNow e) (store ! i)"
  shows "fst (snd (processQueue p e store)) ! i = store ! i"
proof -
  have "i \<notin> fst ` set (findPending (tNow e) store)"
    using assms(2) findPending_member by force
  then have "fst (processBatch e (findPending (tNow e) store) store) ! i = store ! i"
    by (rule processBatch_untouched)
  then show ?thesis
    by (simp add: processQueue_def processQueue_begin_def processQueue_finish_def Let_def
          case_prod_beta)
qed

lemma cancelled_is_terminal:
  assumes "i < length store" and "status (store ! i) = Cancelled"
  shows "apply_op op store ! i = store ! i"
proof (cases op)
  case (Enqueue now a)
  then show ?thesis
    using assms(1) by (simp add: EmailQueue_create_def nth_append)
next
  case (Tick e)
  have "\<not> is_due (tNow e) (store ! i)"
    using assms(2) by (simp add: is_due_def)
  then show ?thesis
    using Tick assms(1) by (simp add: processQueue_untouched)
next
  case (AdminRetry role k now)
  then show ?thesis
    using assms by (cases "k = i") (simp_all add: retryFailedEmail_def findById_def)
next
  case (AdminCancel role k)
  then show ?thesis
    using assms by (cases "k = i") (simp_all add: cancelEmail_def findById_def)
qed


text \<open>
  Claim C8, as the code has it. When the recipient's email channel is disabled, or
  the job's type maps to a preference flag that is false, \<open>shouldSkipEmail\<close> answers
  true (a boolean, with no reason of its own) and \<open>processEmailJob\<close> saves the job as
  \<open>cancelled\<close> with the fixed text \<open>User has opted out of this email type\<close>, without
  calling the provider. The cancelled job is terminal: no enqueue, tick, admin retry
  or admin cancel changes it.
\<close>

theorem opt_out_cancels_for_good:
  assumes "populated env = Some u" and "preferences env = Some prefs"
    and "\<not> email_enabled (pref_email prefs)
         \<or> (\<exists>k. typePreferenceMap (emailType j) = Some k
                \<and> emailPrefs_get (pref_email prefs) k = Some False)"
  shows "shouldSkipEmail j (Some prefs) h
    \<and> processEmailJob env j =
           \<lparr>res_job = j\<lparr>status := Cancelled, attempts := attempts j + 1,
                         lastAttempt := Some (tAttempt env),
                         failureReason := Some ''User has opted out of this email type''\<rparr>,
            res_threw = False, res_sends = []\<rparr>
    \<and> (\<forall>store i op. i < length store \<and> store ! i = res_job (processEmailJob env j)
           \<longrightarrow> apply_op op store ! i = store ! i)"
proof -
  have skip: "shouldSkipEmail j (Some prefs) h" for h
    using assms(3) by (auto simp add: shouldSkipEmail_def)
  then have res: "processEmailJob env j =
           \<lparr>res_job = j\<lparr>status := Cancelled, attempts := attempts j + 1,
                         lastAttempt := Some (tAttempt env),
                         failureReason := Some ''User has opted out of this email type''\<rparr>,
            res_threw = False, res_sends = []\<rparr>"
    using assms(1,2) by (simp add: processEmailJob_def Let_def shouldSkipEmail_marked)
  have "apply_op op store ! i = store ! i"
    if "i < length store" and "store ! i = res_job (processEmailJob env j)" for store i op
  proof -
    have "status (store ! i) = Cancelled"
      using that(2) res by simp
    with that(1) show ?thesis
      by (rule cancelled_is_terminal)
  qed
  with skip res show ?thesis
    by blast
qed

theorem opt_out_cancels_for_good_witness:
  "processEmailJob (sample_env\<lparr>preferences := Some disabled_prefs\<rparr>) sample_job =
     \<lparr>res_job = sample_job\<lparr>status := Cancelled, attempts := 1, lastAttempt := Some 1000,
        failureReason := Some ''User has opted out of this email type''\<rparr>,
      res_threw = False, res_sends = []\<rparr>
   \<and> processEmailJob (sample_env\<lparr>preferences := Some optout_prefs\<rparr>) sample_job =
     \<lparr>res_job = sample_job\<lparr>status := Cancelled, attempts := 1, lastAttempt := Some 1000,
        failureReason := Some ''User has opted out of this email type''\<rparr>,
      res_threw = False, res_sends = []\<rparr>"
proof -
  let ?d = "sample_env\<lparr>preferences := Some disabled_prefs\<rparr>"
  let ?o = "sample_env\<lparr>preferences := Some optout_prefs\<rparr>"
  have a: "populated ?d = Some sample_user" "preferences ?d = Some disabled_prefs"
    "populated ?o = Some sample_user" "preferences ?o = Some optout_prefs"
    by (simp_all add: sample_env_def)
  have b: "\<not> email_enabled (pref_email disabled_prefs)
         \<or> (\<exists>k. typePreferenceMap (emailType sample_job) = Some k
                \<and> emailPrefs_get (pref_email disabled_prefs) k = Some False)"
    by (simp add: disabled_prefs_def default_preferences_def)
  have c: "\<not> email_enabled (pref_email optout_prefs)
         \<or> (\<exists>k. typePreferenceMap (emailType sample_job) = Some k
                \<and> emailPrefs_get (pref_email optout_prefs) k = Some False)"
    by (simp add: optout_prefs_def default_preferences_def sample_job_def
          typePreferenceMap_def emailPrefs_get_def)
  show ?thesis
    using opt_out_cancels_for_good [OF a(1,2) b, of 0]
      opt_out_cancels_for_good [OF a(3,4) c, of 0]
    by (simp add: sample_env_def sample_job_def)
qed

text \<open>
  Claim C8 as stated fails: the reason carried by the cancelled job is neither
  \<open>channel disabled\<close> nor \<open>category opted out\<close>.
\<close>

theorem opt_out_reason_counterexample:
  "failureReason (res_job (processEmailJob (sample_env\<lparr>preferences := Some disabled_prefs\<rparr>)
       sample_job)) = Some ''User has opted out of this email type''
   \<and> failureReason (res_job (processEmailJob (sample_env\<lparr>preferences := Some disabled_prefs\<rparr>)
       sample_job)) \<noteq> Some ''channel disabled''
   \<and> failureReason (res_job (processEmailJob (sample_env\<lparr>preferences := Some optout_prefs\<rparr>)
       sample_job)) = Some ''User has opted out of this email type''
   \<and> failureReason (res_job (processEmailJob (sample_env\<lparr>preferences := Some optout_prefs\<rparr>)
       sample_job)) \<noteq> Some ''category opted out''"
  by (simp add: sample_env_def sample_job_def disabled_prefs_def optout_prefs_def
        default_preferences_def processEmailJob_def shouldSkipEmail_def typePreferenceMap_def
        emailPrefs_get_def Let_def)


text \<open>
  Claim C3. The query of a tick returns the due jobs in the order of the stored
  priority strings, descending, which is \<open>medium\<close>, \<open>low\<close>, \<open>high\<close>: of three due jobs
  the high-priority one, although the oldest, comes last.
\<close>

theorem findPending_priority_order_example:
  "map fst (findPending 10 priority_store) = [1, 2, 0]
   \<and> map (priority \<circ> snd) (findPending 10 priority_store) = [Medium, Low, High]"
  by (simp add: findPending_def priority_store_def sample_job_def is_due_def retryAttempts_def
        sort_docs_def sort_before_def batchSize_def)

text \<open>With ten due medium-priority jobs the batch is full before the high-priority job
  is reached: it is not selected at all.\<close>

lemma findPending_crowded_example:
  "map fst (findPending 10 crowded_store) = [1, 2, 3, 4, 5, 6, 7, 8, 9, 10]"
  by (simp add: findPending_def crowded_store_def sample_job_def is_due_def retryAttempts_def
        sort_docs_def sort_before_def batchSize_def eval_nat_numeral)


text \<open>What does hold of the query: it returns at most \<open>batchSize\<close> documents, each of
  them a due document of the collection.\<close>

lemma findPending_bounded:
  "length (findPending now store) \<le> 10
   \<and> (\<forall>d\<in>set (findPending now store). fst d < length store \<and> snd d = store ! fst d
         \<and> status (snd d) = Pending \<and> scheduledFor (snd d) \<le> now \<and> attempts (snd d) < 3)"
proof -
  have len: "length (findPending now store) \<le> 10"
    by (simp add: findPending_def batchSize_def)
  have "fst d < length store \<and> snd d = store ! fst d
         \<and> status (snd d) = Pending \<and> scheduledFor (snd d) \<le> now \<and> attempts (snd d) < 3"
    if "d \<in> set (findPending now store)" for d
  proof -
    from that have "(fst d, snd d) \<in> set (findPending now store)"
      by simp
    then have "fst d < length store \<and> snd d = store ! fst d \<and> is_due now (snd d)"
      by (rule findPending_member)
    then show ?thesis
      by (auto simp add: is_due_def retryAttempts_def)
  qed
  with len show ?thesis
    by blast
qed

section \<open>The invariant holds after every sequence of operations\<close>


















text \<open>One round of the loop with no request landing in between is \<open>processJob_amid\<close>
  with nothing meanwhile.\<close>

lemma processJob_amid_alone:
  "processBatch e [d] store =
     (fst (processJob_amid [] (jobEnv e (fst d)) d store),
      res_sends (snd (processJob_amid [] (jobEnv e (fst d)) d store)))"
  by (cases "fst d < length store")
    (simp_all add: processJob_amid_def Let_def list_update_beyond)



section \<open>Render failures\<close>

text \<open>
  Claim C7, as the code has it. When \<open>compileTemplate\<close> throws inside \<open>sendEmail\<close> and
  a provider is configured, the send goes on: the provider sender is invoked once, with
  the caller's subject as it was passed (no subject is generated) and with the fallback
  HTML and text built from it, both non-empty; \<open>sendEmail\<close> returns that sender's
  outcome, which in development mode is a receipt.
\<close>

theorem sendEmail_render_failure:
  assumes "\<not> falsy (arg_to a)" and "arg_template a = Some t" and "t \<noteq> []"
    and "compileTemplate env t = Inl err"
    and "provider env = ''development'' \<or> provider env = ''sendgrid''
         \<or> (provider env = ''aws-ses'' \<and> falsy (arg_templateId a))"
  shows "\<exists>d. sr_calls (sendEmail env a) = [d]
    \<and> m_subject d = arg_subject a
    \<and> m_html d = Some (''<h1>'' @ interp (arg_subject a) @ ''</h1><p>Email content would be here.</p>'')
    \<and> m_text d = Some (interp (arg_subject a) @ '' - Email content would be here.'')
    \<and> \<not> falsy (m_html d) \<and> \<not> falsy (m_text d)
    \<and> sr_outcome (sendEmail env a) =
          (if provider env = ''development'' then sendWithDevelopmentMode env d
           else if provider env = ''sendgrid'' then sendWithSendGrid env d
           else sendWithAWSSES env d)
    \<and> (provider env = ''development'' \<longrightarrow> (\<exists>rc. sr_outcome (sendEmail env a) = Inr rc))"
  using assms
  by (auto simp add: sendEmail_def render_step_def Let_def sendWithDevelopmentMode_def)

theorem sendEmail_render_failure_witness:
  "\<exists>d. sr_calls (sendEmail dev_mail welcome_args) = [d]
     \<and> m_subject d = Some ''Welcome to JobPortal!''
     \<and> m_html d = Some ''<h1>Welcome to JobPortal!</h1><p>Email content would be here.</p>''
     \<and> m_text d = Some ''Welcome to JobPortal! - Email content would be here.''
     \<and> sr_outcome (sendEmail dev_mail welcome_args) =
         Inr \<lparr>r_messageId = ''dev_1700000000000'', r_provider = ''development''\<rparr>"
proof -
  have a: "\<not> falsy (arg_to welcome_args)" "arg_template welcome_args = Some ''welcome''"
    "''welcome'' \<noteq> []" "compileTemplate dev_mail ''welcome'' = Inl ''ENOENT''"
    by (simp_all add: welcome_args_def no_subject_args_def dev_mail_def)
  have b: "provider dev_mail = ''development'' \<or> provider dev_mail = ''sendgrid''
         \<or> (provider dev_mail = ''aws-ses'' \<and> falsy (arg_templateId welcome_args))"
    by (simp add: dev_mail_def)
  have c: "arg_subject welcome_args = Some ''Welcome to JobPortal!''"
    "provider dev_mail = ''development''" "dateNowStr dev_mail = ''1700000000000''"
    by (simp_all add: welcome_args_def no_subject_args_def dev_mail_def)
  show ?thesis
    using sendEmail_render_failure [OF a b]
    by (auto simp add: c sendWithDevelopmentMode_def)
qed

text \<open>
  Claim C7 as stated fails. A templated send without a subject passes the validation
  of \<open>sendEmail\<close>; when the template does not render, the provider sender is invoked
  with no subject at all. And where the digest generator renders, at enqueue time,
  nothing catches the error: \<open>createDailyDigestEmail\<close> throws it and creates no job.
\<close>

theorem render_failure_counterexample:
  "map m_subject (sr_calls (sendEmail dev_mail no_subject_args)) = [None]
   \<and> sr_outcome (sendEmail dev_mail no_subject_args) =
       Inr \<lparr>r_messageId = ''dev_1700000000000'', r_provider = ''development''\<rparr>
   \<and> createDailyDigestEmail (compileTemplate dev_mail) 1000 7 [] = Inl ''ENOENT''"
  by (simp add: sendEmail_def render_step_def no_subject_args_def dev_mail_def
        sendWithDevelopmentMode_def createDailyDigestEmail_def)

section \<open>Digest generation\<close>

text \<open>No path of \<open>userSchema\<close> is called \<open>notificationPreferences\<close>, so no stored user
  has a value at the paths the two queries ask for: they find nobody, and the
  generators leave the queue as it is.\<close>

lemma notificationPreferences_not_in_userSchema:
  "''notificationPreferences'' \<notin> set userSchema_paths"
  by (simp add: userSchema_paths_def)

lemma lookup_outside_schema:
  assumes "conforms_userSchema u" and "k \<notin> set userSchema_paths"
  shows "lookup_path (k # ks) (VDoc (u_fields u)) = None"
proof -
  have "k \<notin> fst ` set (u_fields u)"
    using assms by (auto simp add: conforms_userSchema_def list_all_iff)
  then have "map_of (u_fields u) k = None"
    by (simp add: map_of_eq_None_iff)
  then show ?thesis
    by simp
qed

lemma digest_queries_find_nobody:
  assumes "list_all conforms_userSchema users"
  shows "find_where users ''notificationPreferences.preferences.email.frequency'' v = []
    \<and> find_where users ''notificationPreferences.preferences.email.weeklyDigest'' v = []"
proof -
  have "lookup_path (''notificationPreferences'' # ks) (VDoc (u_fields u)) = None"
    if "u \<in> set users" for u ks
  proof -
    have "conforms_userSchema u"
      using that assms by (simp add: list_all_iff)
    then show ?thesis
      using notificationPreferences_not_in_userSchema by (rule lookup_outside_schema)
  qed
  then show ?thesis
    by (simp add: find_where_def filter_empty_conv del: lookup_path.simps)
qed

lemma digest_generators_enqueue_nothing:
  assumes "list_all conforms_userSchema users"
  shows "generateDailyDigests compile now users store = store
    \<and> generateWeeklyDigests compile now users store = store"
  using digest_queries_find_nobody [OF assms]
  by (simp add: generateDailyDigests_def generateWeeklyDigests_def)

text \<open>
  Claim C4. For a user of a collection that conforms to \<open>userSchema\<close>, two runs of the
  daily generator, and two of the weekly one, leave no digest job at all where the
  claim asks for exactly one: the query of each run finds no user.
\<close>

theorem digest_generator_example:
  "list_all conforms_userSchema sample_users
   \<and> generateDailyDigests digest_mail 20 sample_users
       (generateDailyDigests digest_mail 10 sample_users []) = []
   \<and> generateWeeklyDigests digest_mail 20 sample_users
       (generateWeeklyDigests digest_mail 10 sample_users []) = []"
  by (simp add: generateDailyDigests_def generateWeeklyDigests_def find_where_def
        sample_users_def conforms_userSchema_def userSchema_paths_def)


text \<open>Nor does \<open>createDailyDigestEmail\<close> look for an earlier digest job: whenever the
  template renders it appends one, so two calls for a user leave two.\<close>

lemma createDailyDigestEmail_appends:
  assumes "compile ''daily-digest'' = Inr html" and "html \<noteq> []"
  shows "createDailyDigestEmail compile now u store = Inr (store @
    [\<lparr>recipient = u, emailType = ''daily_digest'', subject = ''Your Daily JobPortal Digest'',
      htmlContent = html, textContent = None, priority = Low, status = Pending,
      scheduledFor = now, attempts = 0, lastAttempt = None, sentAt = None,
      failureReason = None, createdAt = now\<rparr>])"
  using assms
  by (simp add: createDailyDigestEmail_def EmailQueue_create_def emailType_enum_def)

lemma createWeeklyDigestEmail_appends:
  assumes "compile ''weekly-digest'' = Inr html" and "html \<noteq> []"
  shows "createWeeklyDigestEmail compile now u store = Inr (store @
    [\<lparr>recipient = u, emailType = ''weekly_digest'', subject = ''Your Weekly JobPortal Summary'',
      htmlContent = html, textContent = None, priority = Low, status = Pending,
      scheduledFor = now, attempts = 0, lastAttempt = None, sentAt = None,
      failureReason = None, createdAt = now\<rparr>])"
  using assms
  by (simp add: createWeeklyDigestEmail_def EmailQueue_create_def emailType_enum_def)

lemma createDailyDigestEmail_twice:
  "map emailType (dailyDigestLoop digest_mail 20 [7] (dailyDigestLoop digest_mail 10 [7] []))
     = [''daily_digest'', ''daily_digest'']
   \<and> map emailType (weeklyDigestLoop digest_mail 20 [7] (weeklyDigestLoop digest_mail 10 [7] []))
     = [''weekly_digest'', ''weekly_digest'']"
  by (simp add: digest_mail_def createDailyDigestEmail_def createWeeklyDigestEmail_def
        EmailQueue_create_def emailType_enum_def)

section \<open>Overlapping ticks\<close>

lemma processBatch_sends_independent:
  "snd (processBatch e ds store) = snd (processBatch e ds store')"
proof (induction ds arbitrary: store store')
  case Nil
  then show ?case by simp
next
  case (Cons d ds)
  let ?m = "mark_processing (jobEnv e (fst d)) (snd d)"
  let ?r = "processEmailJob (jobEnv e (fst d)) (snd d)"
  have "snd (processBatch e ds (store[fst d := save_modified ?m (res_job ?r)
            (save_modified (snd d) ?m (store ! fst d))])) =
        snd (processBatch e ds (store'[fst d := save_modified ?m (res_job ?r)
            (save_modified (snd d) ?m (store' ! fst d))]))"
    by (rule Cons.IH)
  then show ?case
    by (simp add: Let_def case_prod_beta)
qed

lemma status_after_saves:
  assumes "status doc = Pending"
  shows "status (save_modified (mark_processing env doc) (res_job (processEmailJob env doc))
           (save_modified doc (mark_processing env doc) stored)) =
         status (res_job (processEmailJob env doc))"
  using assms by (simp add: save_modified_def mark_processing_def)

text \<open>
  Claim C5, as the code has it. The guard is the \<open>isProcessing\<close> flag of one processor
  instance: a tick that finds it set changes nothing and sends nothing; a tick that
  passes the guard sets it before its query, so a later tick of the same instance is
  such a no-op, and the flag is cleared when the tick ends. Saving a job carries no
  condition: what a tick sends does not depend on what the collection holds by then,
  and the status it computed for a job it read as pending is stored whatever status
  the stored job has by then.
\<close>

theorem single_flight_per_instance:
  "(isProcessing p \<longrightarrow> processQueue p e store = (p, store, []))
   \<and> (\<forall>p1 batch. processQueue_begin p e store = Some (p1, batch) \<longrightarrow>
         isProcessing p1 \<and> batch = findPending (tNow e) store
         \<and> processQueue p1 e2 store2 = (p1, store2, []))
   \<and> \<not> isProcessing (fst (processQueue_finish p e batch store))
   \<and> snd (processBatch e ds store) = snd (processBatch e ds store2)
   \<and> (status doc = Pending \<and> i < length store \<longrightarrow>
        status (fst (processBatch e [(i, doc)] store) ! i) =
          status (res_job (processEmailJob (jobEnv e i) doc)))"
proof -
  have sends: "snd (processBatch e ds store) = snd (processBatch e ds store2)"
    by (rule processBatch_sends_independent)
  have saved: "status (fst (processBatch e [(i, doc)] store) ! i) =
          status (res_job (processEmailJob (jobEnv e i) doc))"
    if "status doc = Pending" and "i < length store"
    using that by (simp add: Let_def status_after_saves)
  have guard: "isProcessing p \<longrightarrow> processQueue p e store = (p, store, [])"
    by (simp add: processQueue_def processQueue_begin_def)
  have start: "\<forall>p1 batch. processQueue_begin p e store = Some (p1, batch) \<longrightarrow>
         isProcessing p1 \<and> batch = findPending (tNow e) store
         \<and> processQueue p1 e2 store2 = (p1, store2, [])"
    by (auto simp add: processQueue_def processQueue_begin_def split: if_splits)
  have fin: "\<not> isProcessing (fst (processQueue_finish p e batch store))"
    by (simp add: processQueue_finish_def Let_def case_prod_beta)
  from guard start fin sends saved show ?thesis
    by blast
qed

theorem single_flight_per_instance_witness:
  "processQueue \<lparr>isProcessing = True\<rparr> (sample_tick 10 dev_mail) [sample_job] =
     (\<lparr>isProcessing = True\<rparr>, [sample_job], [])
   \<and> (\<exists>p1 batch. processQueue_begin \<lparr>isProcessing = False\<rparr> (sample_tick 10 dev_mail)
          [sample_job] = Some (p1, batch)
        \<and> isProcessing p1
        \<and> processQueue p1 (sample_tick 20 dev_mail) [sample_job] = (p1, [sample_job], []))
   \<and> status (fst (processBatch (sample_tick 10 dev_mail) [(0, sample_job)]
        [sample_job\<lparr>status := Cancelled\<rparr>]) ! 0) = Sent"
proof -
  have a: "isProcessing \<lparr>isProcessing = True\<rparr>"
    by simp
  have b: "processQueue_begin \<lparr>isProcessing = False\<rparr> (sample_tick 10 dev_mail) [sample_job] =
      Some (\<lparr>isProcessing = True\<rparr>, findPending (tNow (sample_tick 10 dev_mail)) [sample_job])"
    by (simp add: processQueue_begin_def)
  have c: "status sample_job = Pending \<and> (0::nat) < length [sample_job\<lparr>status := Cancelled\<rparr>]"
    by (simp add: sample_job_def)
  have d: "status (res_job (processEmailJob (jobEnv (sample_tick 10 dev_mail) 0) sample_job)) = Sent"
    by (simp add: sample_tick_def sample_env_def processEmailJob_def shouldSkipEmail_def
        default_preferences_def typePreferenceMap_def emailPrefs_get_def Let_def
        sendEmail_def job_send_args_def sample_user_def render_step_def dev_mail_def
        sendWithDevelopmentMode_def sample_job_def)
  show ?thesis
    using a b c d
      single_flight_per_instance
        [of "\<lparr>isProcessing = True\<rparr>" "sample_tick 10 dev_mail" "[sample_job]"
          "sample_tick 20 dev_mail" "[sample_job]" "[]" "[]" sample_job 0]
      single_flight_per_instance
        [of "\<lparr>isProcessing = False\<rparr>" "sample_tick 10 dev_mail" "[sample_job]"
          "sample_tick 20 dev_mail" "[sample_job]" "[]" "[]" sample_job 0]
      single_flight_per_instance
        [of "\<lparr>isProcessing = False\<rparr>" "sample_tick 10 dev_mail"
          "[sample_job\<lparr>status := Cancelled\<rparr>]"
          "sample_tick 20 dev_mail" "[sample_job]" "[]" "[]" sample_job 0]
    by metis
qed

text \<open>
  Claim C5 as stated fails. Two processor instances, both idle, tick over a collection
  with one due job; both queries return before either loop runs. Neither save fails,
  and the provider sender is invoked twice for the one job.
\<close>

theorem overlapping_ticks_counterexample:
  "overlapping_ticks \<lparr>isProcessing = False\<rparr> \<lparr>isProcessing = False\<rparr>
     (sample_tick 10 dev_mail) (sample_tick 10 dev_mail) [sample_job] =
   Some ([sample_job\<lparr>status := Sent, attempts := 1, lastAttempt := Some 1000,
            sentAt := Some 1200\<rparr>],
         [\<lparr>m_to = Some ''ada@example.com'', m_from = None, m_subject = Some ''New jobs'',
           m_html = Some ''<p>3 new jobs</p>'', m_text = None, m_templateId = None\<rparr>,
          \<lparr>m_to = Some ''ada@example.com'', m_from = None, m_subject = Some ''New jobs'',
           m_html = Some ''<p>3 new jobs</p>'', m_text = None, m_templateId = None\<rparr>])"
  by (simp add: overlapping_ticks_def processQueue_begin_def processQueue_finish_def
        findPending_def sample_job_def is_due_def retryAttempts_def sort_docs_def batchSize_def
        sample_tick_def sample_env_def processEmailJob_def shouldSkipEmail_def
        default_preferences_def typePreferenceMap_def emailPrefs_get_def Let_def
        sendEmail_def job_send_args_def sample_user_def render_step_def dev_mail_def
        sendWithDevelopmentMode_def save_modified_def mark_processing_def)

end
